theory Spec2Isabelle
  imports Main "HOL-Library.FSet" "HOL-Library.Char_ord" "HOL-Library.List_Lexorder"
begin

section \<open>Per-location encryption and access-control policies\<close>

text \<open>
  A shallow embedding of \<^verbatim>\<open>app/security/policies.py\<close>.

  Python \<^verbatim>\<open>str\<close> values are lists of characters read as code points below 256, and
  \<^verbatim>\<open>bytes\<close> values are lists of 8-bit characters. A Python \<^verbatim>\<open>Set[str]\<close> is a finite
  set of strings; \<^verbatim>\<open>sorted\<close> on strings is the lexicographic order on code points.
  Every \<^verbatim>\<open>raise\<close> of the source is a value \<open>Inl e\<close> of the result type.

  Three things the module uses are not part of it and are taken as parameters: the
  process environment read by \<^verbatim>\<open>os.getenv\<close>, the decoder \<^verbatim>\<open>base64.urlsafe_b64decode\<close>,
  and the \<^verbatim>\<open>Fernet\<close> cipher of the \<^verbatim>\<open>cryptography\<close> package.
\<close>

subsection \<open>Strings\<close>

type_synonym bytes = "char list"

text \<open>\<^verbatim>\<open>str.strip()\<close> removes the characters for which \<^verbatim>\<open>str.isspace\<close> holds.\<close>

definition py_isspace :: "char \<Rightarrow> bool" where
  "py_isspace c =
     (let n = (of_char c :: nat)
      in (9 \<le> n \<and> n \<le> 13) \<or> (28 \<le> n \<and> n \<le> 32) \<or> n = 133 \<or> n = 160)"

definition py_strip :: "string \<Rightarrow> string" where
  "py_strip s = rev (dropWhile py_isspace (rev (dropWhile py_isspace s)))"

text \<open>\<^verbatim>\<open>str.lower()\<close> on code points below 256: A-Z and the accented capitals
  192-222 (without the multiplication sign 215) move up by 32.\<close>

definition py_lower_char :: "char \<Rightarrow> char" where
  "py_lower_char c =
     (let n = (of_char c :: nat)
      in if (65 \<le> n \<and> n \<le> 90) \<or> (192 \<le> n \<and> n \<le> 222 \<and> n \<noteq> 215)
         then char_of (n + 32) else c)"

definition py_lower :: "string \<Rightarrow> string" where
  "py_lower s = map py_lower_char s"

text \<open>\<^verbatim>\<open>s.split(",")\<close>: every comma separates, and the empty string gives \<^verbatim>\<open>[""]\<close>.\<close>

fun split_comma :: "string \<Rightarrow> string list" where
  "split_comma [] = [[]]"
| "split_comma (c # cs) =
     (if c = CHR '','' then [] # split_comma cs
      else (case split_comma cs of
              [] \<Rightarrow> [[c]]
            | w # ws \<Rightarrow> (c # w) # ws))"

subsection \<open>Errors\<close>

text \<open>
  The module raises \<^verbatim>\<open>AuthorizationError\<close>, \<^verbatim>\<open>EncryptionError\<close> and \<^verbatim>\<open>ValueError\<close>. Each
  message is a fixed text with interpolated values; an error carries the values, and
  for \<^verbatim>\<open>ValueError\<close> also which of the five texts it is:
  \<^item> \<open>AuthorizationError n rs\<close>:
    \<^verbatim>\<open>principal lacks roles for {n}; required one of {rs}\<close>
  \<^item> \<open>EncryptionError n\<close>: \<^verbatim>\<open>failed to decrypt payload from {n}\<close>
  \<^item> \<open>ValueError NoPolicy l\<close>: \<^verbatim>\<open>no security policy configured for location '{l}'\<close>
  \<^item> \<open>ValueError MissingKey l\<close>: \<^verbatim>\<open>missing encryption key for location '{l}'\<close>
  \<^item> \<open>ValueError InvalidBase64 l\<close>: \<^verbatim>\<open>invalid base64 key for location '{l}'\<close>
  \<^item> \<open>ValueError IncorrectKeyLength l\<close>: \<^verbatim>\<open>incorrect key length for location '{l}'\<close>
  \<^item> \<open>ValueError LocationNone []\<close>: \<^verbatim>\<open>location cannot be None\<close>
\<close>

datatype value_error = NoPolicy | MissingKey | InvalidBase64 | IncorrectKeyLength | LocationNone

datatype error =
    AuthorizationError string "string list"
  | EncryptionError string
  | ValueError value_error string

subsection \<open>What the module takes from outside\<close>

text \<open>The environment: \<^verbatim>\<open>os.getenv(v)\<close> is \<open>env v\<close>.\<close>

type_synonym environ = "string \<Rightarrow> string option"

text \<open>
  The library: \<open>urlsafe_b64decode\<close> is \<open>None\<close> where the decoder raises.
  \<open>fernet_encrypt k n d\<close> is \<^verbatim>\<open>Fernet(k).encrypt(d)\<close>, where \<open>n\<close> stands for the
  time stamp and the initialisation vector the library draws on each call;
  \<open>fernet_decrypt k t\<close> is \<^verbatim>\<open>Fernet(k).decrypt(t)\<close>, \<open>None\<close> where it raises
  \<^verbatim>\<open>InvalidToken\<close>.
\<close>

record 'n crypto_lib =
  urlsafe_b64decode :: "string \<Rightarrow> bytes option"
  fernet_encrypt :: "string \<Rightarrow> 'n \<Rightarrow> bytes \<Rightarrow> bytes"
  fernet_decrypt :: "string \<Rightarrow> bytes \<Rightarrow> bytes option"

subsection \<open>Role and location normalisation\<close>

definition POLICY_VERSION :: string where
  "POLICY_VERSION = ''2024.1''"

text \<open>The loop of \<^verbatim>\<open>_normalize_roles\<close>, with the set \<^verbatim>\<open>roles\<close> as accumulator.\<close>

fun collect_roles :: "string option list \<Rightarrow> string fset \<Rightarrow> string fset" where
  "collect_roles [] roles = roles"
| "collect_roles (None # rest) roles = collect_roles rest roles"
| "collect_roles (Some role # rest) roles =
     (let text = py_lower (py_strip role)
      in if text \<noteq> [] then collect_roles rest (finsert text roles)
         else collect_roles rest roles)"

definition normalize_roles :: "string option list option \<Rightarrow> string fset" where
  "normalize_roles principal_roles =
     (case principal_roles of
        None \<Rightarrow> {|''system''|}
      | Some rs \<Rightarrow>
          (let roles = collect_roles rs {||}
           in if roles = {||} then {|''system''|} else roles))"

definition normalize_location :: "string option \<Rightarrow> error + string" where
  "normalize_location location =
     (case location of
        None \<Rightarrow> Inl (ValueError LocationNone [])
      | Some l \<Rightarrow> Inr (py_lower (py_strip l)))"

subsection \<open>The policy of one location\<close>

text \<open>The field \<open>fernet\<close> holds the key text the \<^verbatim>\<open>Fernet\<close> object was built from.\<close>

record location_policy =
  name :: string
  key_id :: string
  fernet :: string
  allowed_roles :: "string fset"
  key_source :: string

record encryption_info =
  algorithm :: string
  enc_key_id :: string
  enc_key_source :: string

record access_control_info =
  ac_allowed_roles :: "string list"

record policy_snapshot =
  location :: string
  policy_version :: string
  encryption :: encryption_info
  access_control :: access_control_info

definition authorize :: "location_policy \<Rightarrow> string option list option \<Rightarrow> error + unit" where
  "authorize p principal_roles =
     (let roles = normalize_roles principal_roles
      in if roles |\<inter>| allowed_roles p = {||}
         then Inl (AuthorizationError (name p) (sorted_list_of_fset (allowed_roles p)))
         else Inr ())"

definition snapshot :: "location_policy \<Rightarrow> policy_snapshot" where
  "snapshot p =
     \<lparr> location = name p,
       policy_version = POLICY_VERSION,
       encryption = \<lparr> algorithm = ''fernet'', enc_key_id = key_id p,
                      enc_key_source = key_source p \<rparr>,
       access_control = \<lparr> ac_allowed_roles = sorted_list_of_fset (allowed_roles p) \<rparr> \<rparr>"

subsection \<open>Policy definitions\<close>

text \<open>
  One entry of the definitions dictionary. Each key of the inner dictionary may be
  missing (\<^verbatim>\<open>config.get\<close> then gives \<^verbatim>\<open>None\<close>). \<^verbatim>\<open>default_roles\<close> is any iterable of
  strings, which the loader turns into a set.
\<close>

record policy_definition =
  env_key :: "string option"
  env_roles :: "string option"
  default_key :: "string option"
  default_roles :: "string list option"
  cfg_key_id :: "string option"

text \<open>A dictionary of definitions, in the order \<^verbatim>\<open>items()\<close> yields its entries.\<close>

type_synonym definitions = "(string \<times> policy_definition) list"

definition DEFAULT_POLICY_DEFINITIONS :: definitions where
  "DEFAULT_POLICY_DEFINITIONS =
     [(''s3'',
       \<lparr> env_key = Some ''S3_ENCRYPTION_KEY'',
         env_roles = Some ''S3_ALLOWED_ROLES'',
         default_key = Some ''L49jTE3mqXUgmwOvV2EaXiiZkJtQXoaKKKzlqxMFhkI='',
         default_roles = Some [''analytics'', ''engineering'', ''system''],
         cfg_key_id = Some ''s3-default'' \<rparr>),
      (''azure'',
       \<lparr> env_key = Some ''AZURE_ENCRYPTION_KEY'',
         env_roles = Some ''AZURE_ALLOWED_ROLES'',
         default_key = Some ''0-BIKqiBt__oUvQx41iC89SdJpAis6ruT5mHWZn5d50='',
         default_roles = Some [''operations'', ''engineering'', ''system''],
         cfg_key_id = Some ''azure-default'' \<rparr>),
      (''gcs'',
       \<lparr> env_key = Some ''GCS_ENCRYPTION_KEY'',
         env_roles = Some ''GCS_ALLOWED_ROLES'',
         default_key = Some ''FNLdlBuOKy23fIzUTBSHXjhJsfIgSkikUSU3mWk50oo='',
         default_roles = Some [''compliance'', ''analytics'', ''system''],
         cfg_key_id = Some ''gcs-default'' \<rparr>)]"

text \<open>\<^verbatim>\<open>str(x or "")\<close> for an optional string \<open>x\<close>.\<close>

definition str_or_empty :: "string option \<Rightarrow> string" where
  "str_or_empty x = (case x of None \<Rightarrow> [] | Some s \<Rightarrow> s)"

text \<open>\<^verbatim>\<open>os.getenv(v)\<close> used as a condition: set and not empty.\<close>

definition getenv_truthy :: "environ \<Rightarrow> string \<Rightarrow> bool" where
  "getenv_truthy env v = (case env v of None \<Rightarrow> False | Some s \<Rightarrow> s \<noteq> [])"

subsection \<open>Key provisioning\<close>

definition coerce_fernet_key :: "'n crypto_lib \<Rightarrow> string \<Rightarrow> string \<Rightarrow> error + string" where
  "coerce_fernet_key lib raw_key loc =
     (if raw_key = [] then Inl (ValueError MissingKey loc)
      else
        (let raw = py_strip raw_key
         in case urlsafe_b64decode lib raw of
              None \<Rightarrow> Inl (ValueError InvalidBase64 loc)
            | Some decoded \<Rightarrow>
                if length decoded \<noteq> 32 then Inl (ValueError IncorrectKeyLength loc)
                else Inr raw))"

subsection \<open>The manager\<close>

text \<open>The dictionary \<^verbatim>\<open>_policies\<close>, from normalised location names to policies.\<close>

type_synonym policy_store = "string \<rightharpoonup> location_policy"

text \<open>The key text one definition resolves to: the override if set and not empty,
  the default otherwise.\<close>

definition resolved_key :: "environ \<Rightarrow> policy_definition \<Rightarrow> string" where
  "resolved_key env config =
     (let env_var = str_or_empty (env_key config);
          fallback = str_or_empty (default_key config)
      in case env env_var of
           None \<Rightarrow> fallback
         | Some s \<Rightarrow> if s = [] then fallback else s)"

text \<open>The argument of \<^verbatim>\<open>_normalize_roles\<close> in the loader: the override variable's
  value (\<^verbatim>\<open>""\<close> if unset) split at commas, or \<^verbatim>\<open>None\<close> when the definition names no
  variable.\<close>

definition env_role_input :: "environ \<Rightarrow> policy_definition \<Rightarrow> string option list option" where
  "env_role_input env config =
     (let roles_env_var = str_or_empty (env_roles config)
      in if roles_env_var \<noteq> []
         then Some (map Some (split_comma (str_or_empty (env roles_env_var))))
         else None)"

text \<open>The body of the loop of \<^verbatim>\<open>_load_policies\<close>: the policy built from one entry.\<close>

definition load_policy :: "'n crypto_lib \<Rightarrow> environ \<Rightarrow> string \<Rightarrow> policy_definition
    \<Rightarrow> error + location_policy" where
  "load_policy lib env loc config =
     (case normalize_location (Some loc) of
        Inl e \<Rightarrow> Inl e
      | Inr key \<Rightarrow>
          (let env_var = str_or_empty (env_key config);
               raw_key = resolved_key env config;
               source = (if getenv_truthy env env_var then ''env:'' @ env_var else ''default'')
           in case coerce_fernet_key lib raw_key loc of
                Inl e \<Rightarrow> Inl e
              | Inr fernet_key \<Rightarrow>
                  (let base_roles = fset_of_list (case default_roles config of
                                                    None \<Rightarrow> [] | Some rs \<Rightarrow> rs);
                       env_rs = normalize_roles (env_role_input env config);
                       allowed = base_roles |\<union>| env_rs |\<union>| {|''system''|};
                       kid = (case cfg_key_id config of
                                None \<Rightarrow> key @ ''-default''
                              | Some s \<Rightarrow> if s = [] then key @ ''-default'' else s)
                   in Inr \<lparr> name = key, key_id = kid, fernet = fernet_key,
                            allowed_roles = allowed, key_source = source \<rparr>)))"

fun load_policies :: "'n crypto_lib \<Rightarrow> environ \<Rightarrow> definitions \<Rightarrow> policy_store
    \<Rightarrow> error + policy_store" where
  "load_policies lib env [] policies = Inr policies"
| "load_policies lib env ((loc, config) # rest) policies =
     (case load_policy lib env loc config of
        Inl e \<Rightarrow> Inl e
      | Inr p \<Rightarrow> load_policies lib env rest (policies(name p \<mapsto> p)))"

text \<open>\<^verbatim>\<open>definitions or dict(_DEFAULT_POLICY_DEFINITIONS)\<close>: no argument and an empty
  dictionary both select the built-in definitions.\<close>

definition definitions_or_default :: "definitions option \<Rightarrow> definitions" where
  "definitions_or_default defs =
     (case defs of
        None \<Rightarrow> DEFAULT_POLICY_DEFINITIONS
      | Some ds \<Rightarrow> if ds = [] then DEFAULT_POLICY_DEFINITIONS else ds)"

text \<open>\<^verbatim>\<open>AdaptiveSecurityManager(definitions)\<close>: the loaded store, or the error that
  ended the construction.\<close>

definition AdaptiveSecurityManager :: "'n crypto_lib \<Rightarrow> environ \<Rightarrow> definitions option
    \<Rightarrow> error + policy_store" where
  "AdaptiveSecurityManager lib env defs =
     load_policies lib env (definitions_or_default defs) Map.empty"

definition policy_for :: "policy_store \<Rightarrow> string \<Rightarrow> error + location_policy" where
  "policy_for policies loc =
     (case normalize_location (Some loc) of
        Inl e \<Rightarrow> Inl e
      | Inr key \<Rightarrow>
          (case policies key of
             None \<Rightarrow> Inl (ValueError NoPolicy loc)
           | Some p \<Rightarrow> Inr p))"

definition encrypt :: "'n crypto_lib \<Rightarrow> policy_store \<Rightarrow> string \<Rightarrow> bytes option
    \<Rightarrow> string option list option \<Rightarrow> 'n \<Rightarrow> error + bytes option" where
  "encrypt lib policies loc data principal_roles nonce =
     (case data of
        None \<Rightarrow> Inr None
      | Some d \<Rightarrow>
          (case policy_for policies loc of
             Inl e \<Rightarrow> Inl e
           | Inr p \<Rightarrow>
               (case authorize p principal_roles of
                  Inl e \<Rightarrow> Inl e
                | Inr _ \<Rightarrow> Inr (Some (fernet_encrypt lib (fernet p) nonce d)))))"

definition decrypt :: "'n crypto_lib \<Rightarrow> policy_store \<Rightarrow> string \<Rightarrow> bytes option
    \<Rightarrow> string option list option \<Rightarrow> error + bytes option" where
  "decrypt lib policies loc data principal_roles =
     (case data of
        None \<Rightarrow> Inr None
      | Some d \<Rightarrow>
          (case policy_for policies loc of
             Inl e \<Rightarrow> Inl e
           | Inr p \<Rightarrow>
               (case authorize p principal_roles of
                  Inl e \<Rightarrow> Inl e
                | Inr _ \<Rightarrow>
                    (case fernet_decrypt lib (fernet p) d of
                       None \<Rightarrow> Inl (EncryptionError (name p))
                     | Some plain \<Rightarrow> Inr (Some plain)))))"

definition describe_policy :: "policy_store \<Rightarrow> string \<Rightarrow> error + policy_snapshot" where
  "describe_policy policies loc =
     (case policy_for policies loc of
        Inl e \<Rightarrow> Inl e
      | Inr p \<Rightarrow> Inr (snapshot p))"

definition allowed_roles_of :: "policy_store \<Rightarrow> string \<Rightarrow> error + string list" where
  "allowed_roles_of policies loc =
     (case policy_for policies loc of
        Inl e \<Rightarrow> Inl e
      | Inr p \<Rightarrow> Inr (sorted_list_of_fset (allowed_roles p)))"

subsection \<open>What the library is relied on for\<close>

text \<open>A key text the \<^verbatim>\<open>Fernet\<close> constructor accepts: it decodes to 32 bytes.\<close>

definition valid_key :: "'n crypto_lib \<Rightarrow> string \<Rightarrow> bool" where
  "valid_key lib k =
     (case urlsafe_b64decode lib k of None \<Rightarrow> False | Some b \<Rightarrow> length b = 32)"

text \<open>Decrypting under the key a token was made with gives the payload back
  (the manager passes no time-to-live, so the time stamp plays no part).\<close>

definition fernet_round_trip :: "'n crypto_lib \<Rightarrow> bool" where
  "fernet_round_trip lib =
     (\<forall>k n d. valid_key lib k \<longrightarrow>
        fernet_decrypt lib k (fernet_encrypt lib k n d) = Some d)"

subsection \<open>Notions the properties are stated with\<close>

text \<open>The definition a normalised location name is loaded from: the last entry whose
  normalised name it is, since a later entry overwrites an earlier one.\<close>

fun definition_for :: "definitions \<Rightarrow> string \<Rightarrow> (string \<times> policy_definition) option" where
  "definition_for [] k = None"
| "definition_for ((loc, config) # rest) k =
     (case definition_for rest k of
        Some d \<Rightarrow> Some d
      | None \<Rightarrow> if py_lower (py_strip loc) = k then Some (loc, config) else None)"

text \<open>Roles lowercased and trimmed, empties discarded.\<close>

definition normalized_role_set :: "string list \<Rightarrow> string fset" where
  "normalized_role_set rs =
     fset_of_list (filter (\<lambda>t. t \<noteq> []) (map (\<lambda>r. py_lower (py_strip r)) rs))"

text \<open>The roles a definition's role-override variable adds: its comma-separated value,
  each item normalised; nothing when the definition names no variable or it is unset.\<close>

definition override_roles :: "environ \<Rightarrow> policy_definition \<Rightarrow> string fset" where
  "override_roles env config =
     (case env_roles config of
        None \<Rightarrow> {||}
      | Some v \<Rightarrow>
          if v = [] then {||}
          else (case env v of
                  None \<Rightarrow> {||}
                | Some s \<Rightarrow> normalized_role_set (split_comma s)))"

definition configured_default_roles :: "policy_definition \<Rightarrow> string fset" where
  "configured_default_roles config =
     fset_of_list (case default_roles config of None \<Rightarrow> [] | Some rs \<Rightarrow> rs)"

text \<open>What is wrong with the key text a definition resolves to, if anything: it is
  empty, it does not decode, or it decodes to a length other than 32.\<close>

definition key_fault :: "'n crypto_lib \<Rightarrow> environ \<Rightarrow> policy_definition \<Rightarrow> value_error option" where
  "key_fault lib env config =
     (let raw_key = resolved_key env config
      in if raw_key = [] then Some MissingKey
         else (case urlsafe_b64decode lib (py_strip raw_key) of
                 None \<Rightarrow> Some InvalidBase64
               | Some decoded \<Rightarrow>
                   if length decoded \<noteq> 32 then Some IncorrectKeyLength else None))"

text \<open>Two dictionaries of definitions that differ at most in the default key texts.\<close>

definition same_but_default_keys :: "definitions \<Rightarrow> definitions \<Rightarrow> bool" where
  "same_but_default_keys ds ds' =
     list_all2 (\<lambda>(l, c) (l', c'). l' = l \<and> c' = c\<lparr>default_key := default_key c'\<rparr>) ds ds'"

text \<open>The Python expression \<^verbatim>\<open>m.decrypt(loc, m.encrypt(loc1, data, roles), roles)\<close>.\<close>

definition decrypt_encrypted :: "'n crypto_lib \<Rightarrow> policy_store \<Rightarrow> string \<Rightarrow> string
    \<Rightarrow> bytes option \<Rightarrow> string option list option \<Rightarrow> 'n \<Rightarrow> error + bytes option" where
  "decrypt_encrypted lib policies loc loc1 data principal_roles nonce =
     (case encrypt lib policies loc1 data principal_roles nonce of
        Inl e \<Rightarrow> Inl e
      | Inr token \<Rightarrow> decrypt lib policies loc token principal_roles)"

subsection \<open>A library instance for concrete runs\<close>

text \<open>
  A decoder of the URL-safe alphabet for well-formed, padded text (on such text it
  gives what \<^verbatim>\<open>base64.urlsafe_b64decode\<close> gives), and a stand-in cipher whose token is
  a version byte, one byte of the draw, the decoded key and the payload. The stand-in
  is no cipher to use; it has the property above, and it accepts a token under a key
  only if the token carries that key's bytes. The concrete runs below take no more
  from it.
\<close>

definition b64_value :: "char \<Rightarrow> nat option" where
  "b64_value c =
     (let n = (of_char c :: nat)
      in if 65 \<le> n \<and> n \<le> 90 then Some (n - 65)
         else if 97 \<le> n \<and> n \<le> 122 then Some (n - 71)
         else if 48 \<le> n \<and> n \<le> 57 then Some (n + 4)
         else if c = CHR ''-'' \<or> c = CHR ''+'' then Some 62
         else if c = CHR ''_'' \<or> c = CHR ''/'' then Some 63
         else None)"

fun b64_quads :: "string \<Rightarrow> bytes option" where
  "b64_quads (a # b # c # d # rest) =
     (case (b64_value a, b64_value b) of
        (Some x, Some y) \<Rightarrow>
          (if rest = [] \<and> c = CHR ''='' \<and> d = CHR ''=''
           then Some [char_of (x * 4 + y div 16)]
           else (case b64_value c of
                   None \<Rightarrow> None
                 | Some z \<Rightarrow>
                     (if rest = [] \<and> d = CHR ''=''
                      then Some [char_of (x * 4 + y div 16), char_of (y * 16 + z div 4)]
                      else (case (b64_value d, b64_quads rest) of
                              (Some w, Some bs) \<Rightarrow>
                                Some (char_of (x * 4 + y div 16)
                                      # char_of (y * 16 + z div 4)
                                      # char_of (z * 64 + w) # bs)
                            | _ \<Rightarrow> None))))
      | _ \<Rightarrow> None)"
| "b64_quads [] = Some []"
| "b64_quads _ = None"

definition toy_encrypt :: "string \<Rightarrow> nat \<Rightarrow> bytes \<Rightarrow> bytes" where
  "toy_encrypt k n d =
     (case b64_quads k of
        None \<Rightarrow> []
      | Some key \<Rightarrow> char_of (128::nat) # char_of n # key @ d)"

definition toy_decrypt :: "string \<Rightarrow> bytes \<Rightarrow> bytes option" where
  "toy_decrypt k t =
     (case (b64_quads k, t) of
        (Some key, v # n # rest) \<Rightarrow>
          if v = char_of (128::nat) \<and> take (length key) rest = key
          then Some (drop (length key) rest) else None
      | _ \<Rightarrow> None)"

definition toy_lib :: "nat crypto_lib" where
  "toy_lib = \<lparr> urlsafe_b64decode = b64_quads, fernet_encrypt = toy_encrypt,
               fernet_decrypt = toy_decrypt \<rparr>"

text \<open>An environment with none of the variables set.\<close>

definition no_env :: environ where
  "no_env = (\<lambda>_. None)"

text \<open>The three policies the built-in definitions load in that environment.\<close>

definition s3_policy :: location_policy where
  "s3_policy =
     \<lparr> name = ''s3'', key_id = ''s3-default'',
       fernet = ''L49jTE3mqXUgmwOvV2EaXiiZkJtQXoaKKKzlqxMFhkI='',
       allowed_roles = {|''analytics'', ''engineering'', ''system''|},
       key_source = ''default'' \<rparr>"

definition azure_policy :: location_policy where
  "azure_policy =
     \<lparr> name = ''azure'', key_id = ''azure-default'',
       fernet = ''0-BIKqiBt__oUvQx41iC89SdJpAis6ruT5mHWZn5d50='',
       allowed_roles = {|''operations'', ''engineering'', ''system''|},
       key_source = ''default'' \<rparr>"

definition gcs_policy :: location_policy where
  "gcs_policy =
     \<lparr> name = ''gcs'', key_id = ''gcs-default'',
       fernet = ''FNLdlBuOKy23fIzUTBSHXjhJsfIgSkikUSU3mWk50oo='',
       allowed_roles = {|''compliance'', ''analytics'', ''system''|},
       key_source = ''default'' \<rparr>"

definition default_store :: policy_store where
  "default_store = [''s3'' \<mapsto> s3_policy, ''azure'' \<mapsto> azure_policy, ''gcs'' \<mapsto> gcs_policy]"


definition azure_shared_policy :: location_policy where
  "azure_shared_policy =
     azure_policy\<lparr> fernet := ''L49jTE3mqXUgmwOvV2EaXiiZkJtQXoaKKKzlqxMFhkI='',
                   key_source := ''env:AZURE_ENCRYPTION_KEY'' \<rparr>"


text \<open>A dictionary whose second definition has a default key that decodes to five
  bytes.\<close>

definition short_key_definitions :: definitions where
  "short_key_definitions =
     [hd DEFAULT_POLICY_DEFINITIONS,
      (''Backup'',
       \<lparr> env_key = None, env_roles = None, default_key = Some ''c2hvcnQ='',
         default_roles = None, cfg_key_id = None \<rparr>)]"

text \<open>An environment that adds roles to the s3 location, and the store the manager
  builds there from the built-in definitions.\<close>

definition role_override_env :: environ where
  "role_override_env = no_env(''S3_ALLOWED_ROLES'' \<mapsto> '' Auditor, ,ops'')"

definition s3_overridden_policy :: location_policy where
  "s3_overridden_policy =
     s3_policy\<lparr> allowed_roles :=
       {|''analytics'', ''engineering'', ''system'', ''auditor'', ''ops''|} \<rparr>"

definition role_override_store :: policy_store where
  "role_override_store =
     [''s3'' \<mapsto> s3_overridden_policy, ''azure'' \<mapsto> azure_policy, ''gcs'' \<mapsto> gcs_policy]"

text \<open>The built-in definitions with the default keys of s3 and gcs exchanged, and the
  store they load with no variable set.\<close>

definition rekeyed_definitions :: definitions where
  "rekeyed_definitions =
     [(''s3'', (snd (DEFAULT_POLICY_DEFINITIONS ! 0))
          \<lparr> default_key := Some ''FNLdlBuOKy23fIzUTBSHXjhJsfIgSkikUSU3mWk50oo='' \<rparr>),
      DEFAULT_POLICY_DEFINITIONS ! 1,
      (''gcs'', (snd (DEFAULT_POLICY_DEFINITIONS ! 2))
          \<lparr> default_key := Some ''L49jTE3mqXUgmwOvV2EaXiiZkJtQXoaKKKzlqxMFhkI='' \<rparr>)]"

definition rekeyed_store :: policy_store where
  "rekeyed_store =
     [''s3'' \<mapsto> s3_policy\<lparr> fernet := ''FNLdlBuOKy23fIzUTBSHXjhJsfIgSkikUSU3mWk50oo='' \<rparr>,
      ''azure'' \<mapsto> azure_policy,
      ''gcs'' \<mapsto> gcs_policy\<lparr> fernet := ''L49jTE3mqXUgmwOvV2EaXiiZkJtQXoaKKKzlqxMFhkI='' \<rparr>]"

section \<open>Properties\<close>

subsection \<open>Unfolding the loader\<close>

lemma normalize_location_Some: "normalize_location (Some l) = Inr (py_lower (py_strip l))"
  by (simp add: normalize_location_def)

lemma policy_for_eq:
  "policy_for st l = (case st (py_lower (py_strip l)) of
                        None \<Rightarrow> Inl (ValueError NoPolicy l) | Some p \<Rightarrow> Inr p)"
  by (simp add: policy_for_def normalize_location_Some)

lemma coerce_fernet_key_eq:
  "coerce_fernet_key lib (resolved_key env config) loc =
     (case key_fault lib env config of
        Some k \<Rightarrow> Inl (ValueError k loc)
      | None \<Rightarrow> Inr (py_strip (resolved_key env config)))"
  by (simp add: coerce_fernet_key_def key_fault_def Let_def split: option.splits)

lemma key_fault_None_valid:
  "key_fault lib env config = None \<Longrightarrow> valid_key lib (py_strip (resolved_key env config))"
  by (auto simp: key_fault_def valid_key_def Let_def split: option.splits if_splits)

lemma py_strip_Nil [simp]: "py_strip [] = []"
  by (simp add: py_strip_def)

lemma py_lower_Nil [simp]: "py_lower [] = []"
  by (simp add: py_lower_def)

lemma normalized_role_set_Nil [simp]: "normalized_role_set [] = {||}"
  by (simp add: normalized_role_set_def)

lemma normalized_role_set_Cons:
  "normalized_role_set (r # rs) =
     (if py_lower (py_strip r) \<noteq> [] then finsert (py_lower (py_strip r)) (normalized_role_set rs)
      else normalized_role_set rs)"
  by (simp add: normalized_role_set_def)

lemma collect_roles_eq:
  "collect_roles rs acc = acc |\<union>| normalized_role_set (List.map_filter id rs)"
proof (induction rs acc rule: collect_roles.induct)
  case (1 roles)
  then show ?case by simp
next
  case (2 rest roles)
  then show ?case by simp
next
  case (3 role rest roles)
  then show ?case
    by (simp add: normalized_role_set_Cons Let_def)
qed

lemma map_filter_id_map_Some: "List.map_filter id (map Some xs) = xs"
  by (induction xs) simp_all

lemma normalized_role_set_empty_item [simp]: "normalized_role_set [[]] = {||}"
  by (simp add: normalized_role_set_def)

lemma finsert_system_normalize_roles:
  "finsert ''system'' (normalize_roles (Some rs)) =
   finsert ''system'' (normalized_role_set (List.map_filter id rs))"
  by (simp add: normalize_roles_def collect_roles_eq Let_def)

lemma normalize_roles_env_roles:
  "finsert ''system'' (normalize_roles (env_role_input env config)) =
   finsert ''system'' (override_roles env config)"
proof (cases "env_roles config")
  case None
  then show ?thesis
    by (simp add: env_role_input_def override_roles_def str_or_empty_def normalize_roles_def)
next
  case (Some v)
  show ?thesis
  proof (cases "v = []")
    case True
    with Some show ?thesis
      by (simp add: env_role_input_def override_roles_def str_or_empty_def normalize_roles_def)
  next
    case False
    with Some have inp: "env_role_input env config =
        Some (map Some (split_comma (str_or_empty (env v))))"
      by (simp add: env_role_input_def str_or_empty_def)
    show ?thesis
    proof (cases "env v")
      case None
      with Some False show ?thesis
        unfolding inp finsert_system_normalize_roles map_filter_id_map_Some
        by (simp add: override_roles_def str_or_empty_def)
    next
      case (Some s)
      with \<open>env_roles config = Some v\<close> False show ?thesis
        unfolding inp finsert_system_normalize_roles map_filter_id_map_Some
        by (simp add: override_roles_def str_or_empty_def)
    qed
  qed
qed

lemma allowed_roles_eq:
  "finsert ''system'' (b |\<union>| normalize_roles (env_role_input env config)) =
   finsert ''system'' (b |\<union>| override_roles env config)"
proof -
  have "finsert ''system'' (b |\<union>| normalize_roles (env_role_input env config)) =
        b |\<union>| finsert ''system'' (normalize_roles (env_role_input env config))"
    by simp
  also have "\<dots> = b |\<union>| finsert ''system'' (override_roles env config)"
    by (simp only: normalize_roles_env_roles)
  also have "\<dots> = finsert ''system'' (b |\<union>| override_roles env config)"
    by simp
  finally show ?thesis .
qed

lemma load_policy_eq:
  "load_policy lib env loc config =
     (case key_fault lib env config of
        Some k \<Rightarrow> Inl (ValueError k loc)
      | None \<Rightarrow>
          Inr \<lparr> name = py_lower (py_strip loc),
                key_id = (case cfg_key_id config of
                            None \<Rightarrow> py_lower (py_strip loc) @ ''-default''
                          | Some s \<Rightarrow> if s = [] then py_lower (py_strip loc) @ ''-default'' else s),
                fernet = py_strip (resolved_key env config),
                allowed_roles = configured_default_roles config |\<union>| override_roles env config
                                |\<union>| {|''system''|},
                key_source = (if getenv_truthy env (str_or_empty (env_key config))
                              then ''env:'' @ str_or_empty (env_key config) else ''default'') \<rparr>)"
  unfolding load_policy_def normalize_location_Some
  by (simp add: coerce_fernet_key_eq Let_def configured_default_roles_def
      allowed_roles_eq split: option.splits)

subsection \<open>The loaded store\<close>

lemma load_policies_lookup:
  "load_policies lib env ds ps = Inr st \<Longrightarrow>
   st k = (case definition_for ds k of
             None \<Rightarrow> ps k
           | Some (loc, config) \<Rightarrow>
               (case load_policy lib env loc config of Inl e \<Rightarrow> None | Inr p \<Rightarrow> Some p))"
proof (induction ds arbitrary: ps)
  case Nil
  then show ?case by simp
next
  case (Cons d ds)
  obtain loc config where d: "d = (loc, config)" by (cases d)
  from Cons.prems d obtain p where
    p: "load_policy lib env loc config = Inr p" and
    rest: "load_policies lib env ds (ps(name p \<mapsto> p)) = Inr st"
    by (auto split: sum.splits)
  have nm: "name p = py_lower (py_strip loc)"
    using p by (auto simp: load_policy_eq split: option.splits)
  show ?case
    using Cons.IH [OF rest] d p nm by (auto split: option.splits)
qed

lemma definition_for_mem:
  "definition_for ds k = Some (loc, config) \<Longrightarrow>
   (loc, config) \<in> set ds \<and> py_lower (py_strip loc) = k"
  by (induction ds) (auto split: option.splits if_splits)

lemma store_policy_origin:
  assumes "AdaptiveSecurityManager lib env defs = Inr st" and "st k = Some p"
  shows "\<exists>loc config. definition_for (definitions_or_default defs) k = Some (loc, config)
           \<and> load_policy lib env loc config = Inr p"
proof -
  from assms(1) have ld: "load_policies lib env (definitions_or_default defs) Map.empty = Inr st"
    by (simp add: AdaptiveSecurityManager_def)
  from load_policies_lookup [OF ld, of k] assms(2) show ?thesis
    by (auto split: option.splits sum.splits)
qed

lemma loaded_policy_facts:
  assumes "load_policy lib env loc config = Inr p"
  shows "name p = py_lower (py_strip loc)"
    and "valid_key lib (fernet p)"
    and "allowed_roles p = configured_default_roles config |\<union>| override_roles env config
                             |\<union>| {|''system''|}"
  using assms key_fault_None_valid [of lib env config]
  by (auto simp: load_policy_eq split: option.splits)

lemma store_policy_facts:
  assumes "AdaptiveSecurityManager lib env defs = Inr st" and "st k = Some p"
  shows "name p = k" and "valid_key lib (fernet p)" and "''system'' |\<in>| allowed_roles p"
proof -
  from store_policy_origin [OF assms] obtain loc config where
    d: "definition_for (definitions_or_default defs) k = Some (loc, config)" and
    l: "load_policy lib env loc config = Inr p" by blast
  from definition_for_mem [OF d] loaded_policy_facts(1) [OF l] show "name p = k" by simp
  from loaded_policy_facts(2) [OF l] show "valid_key lib (fernet p)" .
  from loaded_policy_facts(3) [OF l] show "''system'' |\<in>| allowed_roles p" by simp
qed

lemma authorize_eq:
  "authorize p roles =
     (if normalize_roles roles |\<inter>| allowed_roles p = {||}
      then Inl (AuthorizationError (name p) (sorted_list_of_fset (allowed_roles p)))
      else Inr ())"
  by (simp add: authorize_def Let_def)

lemma toy_round_trip: "fernet_round_trip toy_lib"
  by (auto simp: fernet_round_trip_def toy_lib_def valid_key_def toy_encrypt_def toy_decrypt_def
      split: option.splits)


subsection \<open>Concrete runs of the loader\<close>

lemma valid_default_keys:
  "valid_key toy_lib ''L49jTE3mqXUgmwOvV2EaXiiZkJtQXoaKKKzlqxMFhkI=''"
  "valid_key toy_lib ''0-BIKqiBt__oUvQx41iC89SdJpAis6ruT5mHWZn5d50=''"
  "valid_key toy_lib ''FNLdlBuOKy23fIzUTBSHXjhJsfIgSkikUSU3mWk50oo=''"
  by (simp_all add: valid_key_def toy_lib_def b64_value_def)

lemma strip_default_keys:
  "py_strip ''L49jTE3mqXUgmwOvV2EaXiiZkJtQXoaKKKzlqxMFhkI='' =
     ''L49jTE3mqXUgmwOvV2EaXiiZkJtQXoaKKKzlqxMFhkI=''"
  "py_strip ''0-BIKqiBt__oUvQx41iC89SdJpAis6ruT5mHWZn5d50='' =
     ''0-BIKqiBt__oUvQx41iC89SdJpAis6ruT5mHWZn5d50=''"
  "py_strip ''FNLdlBuOKy23fIzUTBSHXjhJsfIgSkikUSU3mWk50oo='' =
     ''FNLdlBuOKy23fIzUTBSHXjhJsfIgSkikUSU3mWk50oo=''"
  by (simp_all add: py_strip_def py_isspace_def)


lemma default_location_names:
  "py_lower (py_strip ''s3'') = ''s3''"
  "py_lower (py_strip ''azure'') = ''azure''"
  "py_lower (py_strip ''gcs'') = ''gcs''"
  by (simp_all add: py_strip_def py_isspace_def py_lower_def py_lower_char_def)

lemma key_fault_valid:
  "resolved_key env config \<noteq> [] \<Longrightarrow> valid_key lib (py_strip (resolved_key env config))
   \<Longrightarrow> key_fault lib env config = None"
  by (auto simp: key_fault_def valid_key_def Let_def split: option.splits)

lemma default_policies_loaded:
  "load_policy toy_lib no_env ''s3'' (snd (DEFAULT_POLICY_DEFINITIONS ! 0)) = Inr s3_policy"
  "load_policy toy_lib no_env ''azure'' (snd (DEFAULT_POLICY_DEFINITIONS ! 1)) = Inr azure_policy"
  "load_policy toy_lib no_env ''gcs'' (snd (DEFAULT_POLICY_DEFINITIONS ! 2)) = Inr gcs_policy"
  by (auto simp: load_policy_eq DEFAULT_POLICY_DEFINITIONS_def default_location_names
      key_fault_valid resolved_key_def str_or_empty_def no_env_def getenv_truthy_def
      strip_default_keys valid_default_keys override_roles_def configured_default_roles_def
      s3_policy_def azure_policy_def gcs_policy_def)

lemma default_store_built: "AdaptiveSecurityManager toy_lib no_env None = Inr default_store"
  using default_policies_loaded
  by (simp add: AdaptiveSecurityManager_def definitions_or_default_def
      DEFAULT_POLICY_DEFINITIONS_def default_store_def s3_policy_def azure_policy_def
      gcs_policy_def)



lemma default_store_lookups:
  "policy_for default_store ''s3'' = Inr s3_policy"
  "policy_for default_store ''azure'' = Inr azure_policy"
  "policy_for default_store ''gcs'' = Inr gcs_policy"
  by (simp_all add: policy_for_eq default_location_names default_store_def)


subsection \<open>Absent data, and the authorization gate\<close>

lemma authorize_examples:
  "authorize azure_policy (Some [Some ''analytics'']) =
     Inl (AuthorizationError ''azure'' [''engineering'', ''operations'', ''system''])"
  "authorize s3_policy (Some [Some ''analytics'']) = Inr ()"
  "authorize s3_policy (Some [Some ''auditor'']) =
     Inl (AuthorizationError ''s3'' [''analytics'', ''engineering'', ''system''])"
  "authorize s3_policy (Some [Some '' Engineering '']) = Inr ()"
  "authorize s3_policy (Some [Some ''system'']) = Inr ()"
  "authorize azure_shared_policy (Some [Some ''system'']) = Inr ()"
  "authorize gcs_policy (Some [Some ''analytics'']) = Inr ()"
  by code_simp+

lemma sorted_list_of_fset_props:
  "sorted (sorted_list_of_fset A)" "distinct (sorted_list_of_fset A)"
  by (simp_all add: sorted_list_of_fset.rep_eq)

text \<open>
  C5: for every location string and every role input, present or absent, \<^verbatim>\<open>encrypt\<close> and
  \<^verbatim>\<open>decrypt\<close> of absent data return absent. No authorization check takes place: the
  result is absent also for a principal that the location's policy refuses, for whom
  the same calls on present data end in the authorization error.
\<close>

theorem absent_data_passes_through:
  "encrypt lib st L None roles n = Inr None \<and> decrypt lib st L None roles = Inr None \<and>
   (\<forall>p e d. policy_for st L = Inr p \<longrightarrow> authorize p roles = Inl e \<longrightarrow>
      encrypt lib st L (Some d) roles n = Inl e \<and> decrypt lib st L (Some d) roles = Inl e)"
  by (simp add: encrypt_def decrypt_def)

theorem absent_data_passes_through_witness:
  "policy_for default_store ''azure'' = Inr azure_policy \<and>
   authorize azure_policy (Some [Some ''analytics'']) =
     Inl (AuthorizationError ''azure'' [''engineering'', ''operations'', ''system'']) \<and>
   encrypt toy_lib default_store ''azure'' None (Some [Some ''analytics'']) 0 = Inr None \<and>
   decrypt toy_lib default_store ''azure'' None (Some [Some ''analytics'']) = Inr None \<and>
   encrypt toy_lib default_store ''azure'' (Some ''hello'') (Some [Some ''analytics'']) 0 =
     Inl (AuthorizationError ''azure'' [''engineering'', ''operations'', ''system'']) \<and>
   decrypt toy_lib default_store ''azure'' (Some ''hello'') (Some [Some ''analytics'']) =
     Inl (AuthorizationError ''azure'' [''engineering'', ''operations'', ''system''])"
  using absent_data_passes_through [of toy_lib default_store "''azure''"
      "Some [Some ''analytics'']" 0]
    default_store_lookups(2) authorize_examples(1)
  by blast

text \<open>
  C10: absent data is returned before the policy is resolved. At a location string for
  which resolution fails, \<^verbatim>\<open>encrypt\<close> and \<^verbatim>\<open>decrypt\<close> of absent data return absent and
  raise nothing, while on present data both raise the lookup error.
\<close>

theorem absent_data_skips_policy_lookup:
  "policy_for st s = Inl e \<Longrightarrow>
   encrypt lib st s None roles n = Inr None \<and> decrypt lib st s None roles = Inr None \<and>
   encrypt lib st s (Some d) roles n = Inl e \<and> decrypt lib st s (Some d) roles = Inl e"
  by (simp add: encrypt_def decrypt_def)

lemma ftp_not_configured: "policy_for default_store ''ftp'' = Inl (ValueError NoPolicy ''ftp'')"
  by (simp add: policy_for_eq default_store_def py_strip_def py_isspace_def py_lower_def
      py_lower_char_def)

theorem absent_data_skips_policy_lookup_witness:
  "policy_for default_store ''ftp'' = Inl (ValueError NoPolicy ''ftp'') \<and>
   encrypt toy_lib default_store ''ftp'' None None 0 = Inr None \<and>
   decrypt toy_lib default_store ''ftp'' None None = Inr None \<and>
   encrypt toy_lib default_store ''ftp'' (Some ''hello'') None 0 = Inl (ValueError NoPolicy ''ftp'') \<and>
   decrypt toy_lib default_store ''ftp'' (Some ''hello'') None = Inl (ValueError NoPolicy ''ftp'')"
  using absent_data_skips_policy_lookup [OF ftp_not_configured, of toy_lib None 0 "''hello''"]
    ftp_not_configured
  by simp

text \<open>
  C2: for every policy and every role input, present or absent, \<^verbatim>\<open>authorize\<close> succeeds
  if and only if the normalised roles meet the policy's allowed roles. Otherwise it
  raises the \<^verbatim>\<open>AuthorizationError\<close> that carries the policy's name and the list of its
  allowed roles: sorted, without repetition, and all of them. The result is a function
  of the policy and the input.
\<close>

theorem authorize_iff_roles_intersect:
  "(authorize p roles = Inr () \<longleftrightarrow> normalize_roles roles |\<inter>| allowed_roles p \<noteq> {||}) \<and>
   (normalize_roles roles |\<inter>| allowed_roles p = {||} \<longrightarrow>
      (\<exists>required. authorize p roles = Inl (AuthorizationError (name p) required) \<and>
         sorted required \<and> distinct required \<and> set required = fset (allowed_roles p)))"
  by (simp add: authorize_eq sorted_list_of_fset_props)

theorem authorize_iff_roles_intersect_witness:
  "normalize_roles (Some [Some ''auditor'']) |\<inter>| allowed_roles s3_policy = {||} \<and>
   authorize s3_policy (Some [Some ''auditor'']) \<noteq> Inr () \<and>
   (\<exists>required. authorize s3_policy (Some [Some ''auditor'']) =
        Inl (AuthorizationError (name s3_policy) required) \<and>
      sorted required \<and> distinct required \<and> set required = fset (allowed_roles s3_policy))"
proof -
  have h: "normalize_roles (Some [Some ''auditor'']) |\<inter>| allowed_roles s3_policy = {||}"
    by code_simp
  show ?thesis
    using h authorize_iff_roles_intersect [of s3_policy "Some [Some ''auditor'']"] by blast
qed

subsection \<open>Resolution of policies and normalisation of roles\<close>

text \<open>
  C7: policy resolution trims and lowercases the location string first. It fails, with
  the \<^verbatim>\<open>ValueError\<close> "no security policy configured for location" that quotes the
  string as given, if and only if the normalised name is not a key of the store;
  otherwise it yields the policy stored under the normalised name. \<^verbatim>\<open>describe_policy\<close>,
  \<^verbatim>\<open>allowed_roles\<close>, and \<^verbatim>\<open>encrypt\<close> and \<^verbatim>\<open>decrypt\<close> on present data resolve the policy
  this way, so two strings with the same normalised name reach the same policy.
\<close>

theorem policy_resolution_normalizes:
  "((\<exists>e. policy_for st s = Inl e) \<longleftrightarrow> st (py_lower (py_strip s)) = None) \<and>
   (st (py_lower (py_strip s)) = None \<longrightarrow>
      policy_for st s = Inl (ValueError NoPolicy s) \<and>
      describe_policy st s = Inl (ValueError NoPolicy s) \<and>
      allowed_roles_of st s = Inl (ValueError NoPolicy s) \<and>
      encrypt lib st s (Some d) roles n = Inl (ValueError NoPolicy s) \<and>
      decrypt lib st s (Some d) roles = Inl (ValueError NoPolicy s)) \<and>
   (\<forall>p. st (py_lower (py_strip s)) = Some p \<longrightarrow>
      policy_for st s = Inr p \<and>
      describe_policy st s = Inr (snapshot p) \<and>
      allowed_roles_of st s = Inr (sorted_list_of_fset (allowed_roles p)) \<and>
      (\<forall>s'. py_lower (py_strip s') = py_lower (py_strip s) \<longrightarrow> policy_for st s' = Inr p))"
  by (auto simp: policy_for_eq describe_policy_def allowed_roles_of_def encrypt_def decrypt_def
      split: option.splits)

lemma spaced_capital_s3: "py_lower (py_strip ''  S3 '') = ''s3''"
  by code_simp

theorem policy_resolution_normalizes_witness:
  "default_store (py_lower (py_strip ''  S3 '')) = Some s3_policy \<and>
   py_lower (py_strip ''s3'') = py_lower (py_strip ''  S3 '') \<and>
   policy_for default_store ''  S3 '' = Inr s3_policy \<and>
   policy_for default_store ''s3'' = Inr s3_policy \<and>
   describe_policy default_store ''  S3 '' = Inr (snapshot s3_policy) \<and>
   default_store (py_lower (py_strip ''ftp'')) = None \<and>
   policy_for default_store ''ftp'' = Inl (ValueError NoPolicy ''ftp'') \<and>
   describe_policy default_store ''ftp'' = Inl (ValueError NoPolicy ''ftp'')"
proof -
  have a: "default_store (py_lower (py_strip ''  S3 '')) = Some s3_policy"
    by (simp add: spaced_capital_s3 default_store_def)
  have b: "py_lower (py_strip ''s3'') = py_lower (py_strip ''  S3 '')"
    by (simp add: spaced_capital_s3 default_location_names)
  have c: "default_store (py_lower (py_strip ''ftp'')) = None"
    by (simp add: default_store_def py_strip_def py_isspace_def py_lower_def py_lower_char_def)
  show ?thesis
    using a b c
      policy_resolution_normalizes [of default_store "''  S3 ''" toy_lib "''hello''" None 0]
      policy_resolution_normalizes [of default_store "''ftp''" toy_lib "''hello''" None 0]
    by blast
qed

text \<open>
  C8: role normalisation lowercases and trims each role and discards the empty ones.
  The result is exactly the set with the one role "system" when the input is absent,
  and also when nothing is left after normalisation; it is the normalised roles
  otherwise. So a caller who presents an empty collection of roles, or only blank
  ones, is authorized by every policy of a store the manager has built.
\<close>

theorem normalize_roles_defaults_to_system:
  "normalize_roles None = {|''system''|} \<and>
   normalize_roles (Some rs) =
     (if normalized_role_set (List.map_filter id rs) = {||} then {|''system''|}
      else normalized_role_set (List.map_filter id rs)) \<and>
   (AdaptiveSecurityManager lib env defs = Inr st \<longrightarrow> st k = Some p \<longrightarrow>
      authorize p (Some []) = Inr () \<and>
      (normalized_role_set (List.map_filter id rs) = {||} \<longrightarrow> authorize p (Some rs) = Inr ()))"
proof -
  have n: "normalize_roles (Some rs) =
     (if normalized_role_set (List.map_filter id rs) = {||} then {|''system''|}
      else normalized_role_set (List.map_filter id rs))" for rs
    by (simp add: normalize_roles_def collect_roles_eq Let_def)
  have a: "authorize p (Some rs) = Inr ()"
    if "AdaptiveSecurityManager lib env defs = Inr st" "st k = Some p"
       "normalized_role_set (List.map_filter id rs) = {||}" for rs
  proof -
    from store_policy_facts(3) [OF that(1,2)] have s: "''system'' |\<in>| allowed_roles p" .
    from that(3) have "normalize_roles (Some rs) = {|''system''|}" by (simp add: n)
    with s show ?thesis by (auto simp: authorize_eq)
  qed
  have "normalize_roles None = {|''system''|}"
    by (simp add: normalize_roles_def)
  moreover note n [of rs]
  moreover have "authorize p (Some []) = Inr ()"
    if "AdaptiveSecurityManager lib env defs = Inr st" "st k = Some p"
    using a [OF that, of "[]"] by simp
  ultimately show ?thesis using a by blast
qed

theorem normalize_roles_defaults_to_system_witness:
  "AdaptiveSecurityManager toy_lib no_env None = Inr default_store \<and>
   default_store ''azure'' = Some azure_policy \<and>
   normalized_role_set (List.map_filter id [Some ''  '', None]) = {||} \<and>
   normalize_roles (Some [Some ''  '', None]) = {|''system''|} \<and>
   authorize azure_policy (Some [Some ''  '', None]) = Inr () \<and>
   authorize azure_policy (Some []) = Inr ()"
proof -
  have a: "default_store ''azure'' = Some azure_policy"
    by (simp add: default_store_def)
  have b: "normalized_role_set (List.map_filter id [Some ''  '', None]) = {||}"
    by code_simp
  note t = normalize_roles_defaults_to_system
    [of "[Some ''  '', None]" toy_lib no_env None default_store "''azure''" azure_policy]
  have c: "normalize_roles (Some [Some ''  '', None]) = {|''system''|}"
    using t [THEN conjunct2, THEN conjunct1] unfolding b by simp
  note u = t [THEN conjunct2, THEN conjunct2, rule_format, OF default_store_built a]
  from u [THEN conjunct2, rule_format, OF b] u [THEN conjunct1] a b c default_store_built
  show ?thesis by (intro conjI)
qed

subsection \<open>Round trip and cross-location decryption\<close>

lemma policy_for_Inr: "policy_for st l = Inr p \<Longrightarrow> st (py_lower (py_strip l)) = Some p"
  by (simp add: policy_for_eq split: option.splits)

lemma encrypt_authorized:
  "policy_for st l = Inr p \<Longrightarrow> normalize_roles roles |\<inter>| allowed_roles p \<noteq> {||} \<Longrightarrow>
   encrypt lib st l (Some d) roles n = Inr (Some (fernet_encrypt lib (fernet p) n d))"
  by (simp add: encrypt_def authorize_eq)

lemma decrypt_authorized:
  "policy_for st l = Inr p \<Longrightarrow> normalize_roles roles |\<inter>| allowed_roles p \<noteq> {||} \<Longrightarrow>
   decrypt lib st l (Some t) roles =
     (case fernet_decrypt lib (fernet p) t of
        None \<Rightarrow> Inl (EncryptionError (name p))
      | Some plain \<Rightarrow> Inr (Some plain))"
  by (simp add: decrypt_def authorize_eq)

text \<open>
  C1: let the manager have built a store, let the location resolve to a policy of it,
  and let the normalised roles meet the policy's allowed roles. Then decrypting at the
  location what \<^verbatim>\<open>encrypt\<close> returned there gives back exactly the data, for every
  payload (the empty one too) and every draw of the cipher, given that the cipher
  decrypts under a key what it encrypted under it.
\<close>

theorem encrypt_decrypt_round_trip:
  assumes "fernet_round_trip lib"
    and "AdaptiveSecurityManager lib env defs = Inr st"
    and "policy_for st l = Inr p"
    and "normalize_roles roles |\<inter>| allowed_roles p \<noteq> {||}"
  shows "decrypt_encrypted lib st l l (Some d) roles n = Inr (Some d)"
proof -
  from store_policy_facts(2) [OF assms(2) policy_for_Inr [OF assms(3)]]
  have "valid_key lib (fernet p)" .
  with assms(1) have "fernet_decrypt lib (fernet p) (fernet_encrypt lib (fernet p) n d) = Some d"
    by (simp add: fernet_round_trip_def)
  then show ?thesis
    by (simp add: decrypt_encrypted_def encrypt_authorized [OF assms(3,4)]
        decrypt_authorized [OF assms(3,4)])
qed

lemma engineering_meets_s3:
  "normalize_roles (Some [Some '' Engineering '']) |\<inter>| allowed_roles s3_policy \<noteq> {||}"
  by code_simp

theorem encrypt_decrypt_round_trip_witness:
  "fernet_round_trip toy_lib \<and>
   AdaptiveSecurityManager toy_lib no_env None = Inr default_store \<and>
   policy_for default_store ''s3'' = Inr s3_policy \<and>
   normalize_roles (Some [Some '' Engineering '']) |\<inter>| allowed_roles s3_policy \<noteq> {||} \<and>
   decrypt_encrypted toy_lib default_store ''s3'' ''s3'' (Some ''hello'')
     (Some [Some '' Engineering '']) 7 = Inr (Some ''hello'') \<and>
   decrypt_encrypted toy_lib default_store ''s3'' ''s3'' (Some [])
     (Some [Some '' Engineering '']) 7 = Inr (Some [])"
  using toy_round_trip default_store_built default_store_lookups(1) engineering_meets_s3
    encrypt_decrypt_round_trip [OF toy_round_trip default_store_built default_store_lookups(1)
      engineering_meets_s3, of "''hello''" 7]
    encrypt_decrypt_round_trip [OF toy_round_trip default_store_built default_store_lookups(1)
      engineering_meets_s3, of "[]" 7]
  by (intro conjI)








subsection \<open>Key material that the loader refuses\<close>

lemma load_policies_first_fault:
  "(loc, config) \<in> set ds \<Longrightarrow> key_fault lib env config = Some k \<Longrightarrow>
   \<exists>pre loc' config' post k'.
     ds = pre @ (loc', config') # post \<and>
     (\<forall>(l, c) \<in> set pre. key_fault lib env c = None) \<and>
     key_fault lib env config' = Some k' \<and>
     load_policies lib env ds ps = Inl (ValueError k' loc')"
proof (induction ds arbitrary: ps)
  case Nil
  then show ?case by simp
next
  case (Cons d ds)
  obtain l0 c0 where d: "d = (l0, c0)" by (cases d)
  show ?case
  proof (cases "key_fault lib env c0")
    case (Some k0)
    then have "load_policies lib env (d # ds) ps = Inl (ValueError k0 l0)"
      by (simp add: d load_policy_eq)
    with Some d show ?thesis by fastforce
  next
    case None
    with Cons.prems d have mem: "(loc, config) \<in> set ds" by auto
    from None obtain p where p: "load_policy lib env l0 c0 = Inr p"
      by (simp add: load_policy_eq)
    from Cons.IH [OF mem Cons.prems(2), of "ps(name p \<mapsto> p)"]
    obtain pre loc' config' post k' where
      r: "ds = pre @ (loc', config') # post"
         "\<forall>(l, c) \<in> set pre. key_fault lib env c = None"
         "key_fault lib env config' = Some k'"
         "load_policies lib env ds (ps(name p \<mapsto> p)) = Inl (ValueError k' loc')"
      by blast
    have "d # ds = (d # pre) @ (loc', config') # post" using r(1) by simp
    moreover have "\<forall>(l, c) \<in> set (d # pre). key_fault lib env c = None"
      using r(2) None d by simp
    moreover have "load_policies lib env (d # ds) ps = Inl (ValueError k' loc')"
      using r(4) p d by simp
    ultimately show ?thesis using r(3) by blast
  qed
qed

text \<open>
  C4: when the key text that some definition resolves to is empty, does not decode, or
  decodes to a length other than 32 bytes, constructing the manager produces no store:
  it ends in a \<^verbatim>\<open>ValueError\<close> that says which of the three it is and quotes the
  location name of the first definition with such a key, as the dictionary gives it.
\<close>

theorem invalid_key_fails_construction:
  assumes "(loc, config) \<in> set (definitions_or_default defs)"
    and "key_fault lib env config = Some k"
  shows "\<exists>pre loc' config' post k'.
     definitions_or_default defs = pre @ (loc', config') # post \<and>
     (\<forall>(l, c) \<in> set pre. key_fault lib env c = None) \<and>
     key_fault lib env config' = Some k' \<and>
     k' \<in> {MissingKey, InvalidBase64, IncorrectKeyLength} \<and>
     AdaptiveSecurityManager lib env defs = Inl (ValueError k' loc') \<and>
     (\<forall>st. AdaptiveSecurityManager lib env defs \<noteq> Inr st)"
proof -
  from load_policies_first_fault [OF assms, of Map.empty]
  obtain pre loc' config' post k' where
    r: "definitions_or_default defs = pre @ (loc', config') # post"
       "\<forall>(l, c) \<in> set pre. key_fault lib env c = None"
       "key_fault lib env config' = Some k'"
       "load_policies lib env (definitions_or_default defs) Map.empty = Inl (ValueError k' loc')"
    by blast
  from r(3) have "k' \<in> {MissingKey, InvalidBase64, IncorrectKeyLength}"
    by (auto simp: key_fault_def Let_def split: if_splits option.splits)
  with r show ?thesis
    unfolding AdaptiveSecurityManager_def by force
qed

lemma short_key_faults:
  "key_fault toy_lib no_env (snd (hd DEFAULT_POLICY_DEFINITIONS)) = None"
  "key_fault toy_lib no_env (snd (short_key_definitions ! 1)) = Some IncorrectKeyLength"
  by (simp_all add: key_fault_def short_key_definitions_def DEFAULT_POLICY_DEFINITIONS_def
      resolved_key_def str_or_empty_def no_env_def toy_lib_def b64_value_def
      py_strip_def py_isspace_def)

theorem invalid_key_fails_construction_witness:
  "(''Backup'', snd (short_key_definitions ! 1))
     \<in> set (definitions_or_default (Some short_key_definitions)) \<and>
   key_fault toy_lib no_env (snd (short_key_definitions ! 1)) = Some IncorrectKeyLength \<and>
   AdaptiveSecurityManager toy_lib no_env (Some short_key_definitions) =
     Inl (ValueError IncorrectKeyLength ''Backup'')"
proof -
  have m: "(''Backup'', snd (short_key_definitions ! 1))
     \<in> set (definitions_or_default (Some short_key_definitions))"
    by (simp add: definitions_or_default_def short_key_definitions_def)
  have ds: "definitions_or_default (Some short_key_definitions) =
     [hd DEFAULT_POLICY_DEFINITIONS, (''Backup'', snd (short_key_definitions ! 1))]"
    by (simp add: definitions_or_default_def short_key_definitions_def)
  have h: "hd DEFAULT_POLICY_DEFINITIONS = (''s3'', snd (hd DEFAULT_POLICY_DEFINITIONS))"
    by (simp add: DEFAULT_POLICY_DEFINITIONS_def)
  from invalid_key_fails_construction [OF m short_key_faults(2)]
  obtain pre loc' config' post k' where
    r: "definitions_or_default (Some short_key_definitions) = pre @ (loc', config') # post"
       "\<forall>(l, c) \<in> set pre. key_fault toy_lib no_env c = None"
       "key_fault toy_lib no_env config' = Some k'"
       "AdaptiveSecurityManager toy_lib no_env (Some short_key_definitions) =
          Inl (ValueError k' loc')"
    by blast
  from r(1) [unfolded ds] have
    "(pre = [] \<and> (loc', config') = hd DEFAULT_POLICY_DEFINITIONS) \<or>
     (pre = [hd DEFAULT_POLICY_DEFINITIONS] \<and>
      (loc', config') = (''Backup'', snd (short_key_definitions ! 1)))"
    by (auto simp: Cons_eq_append_conv)
  then have "loc' = ''Backup'' \<and> config' = snd (short_key_definitions ! 1)"
    using r(3) short_key_faults(1) h by (metis Pair_inject option.distinct(1))
  with r(3,4) short_key_faults(2) have
    "AdaptiveSecurityManager toy_lib no_env (Some short_key_definitions) =
       Inl (ValueError IncorrectKeyLength ''Backup'')" by simp
  with m short_key_faults(2) show ?thesis by (intro conjI)
qed

subsection \<open>Allowed roles of a loaded policy\<close>

lemma snapshot_allowed_roles:
  "fset_of_list (ac_allowed_roles (access_control (snapshot p))) = allowed_roles p"
  by (simp add: snapshot_def)

text \<open>
  C6: let the manager have built a store and let a location resolve to a policy of it.
  Then the policy was loaded from the definition of that location (the last one with
  that normalised name), and its allowed roles are exactly the definition's default
  roles, together with the normalised items of the comma-separated value of its
  role-override variable, together with "system". So "system" is an allowed role of
  every policy, and the allowed roles that \<^verbatim>\<open>describe_policy\<close> lists are the policy's and
  include the default roles and "system".
\<close>

theorem allowed_roles_of_built_store:
  assumes "AdaptiveSecurityManager lib env defs = Inr st"
    and "policy_for st l = Inr p"
  shows "\<exists>loc config snap.
     definition_for (definitions_or_default defs) (py_lower (py_strip l)) = Some (loc, config) \<and>
     allowed_roles p =
       configured_default_roles config |\<union>| override_roles env config |\<union>| {|''system''|} \<and>
     ''system'' |\<in>| allowed_roles p \<and>
     describe_policy st l = Inr snap \<and>
     fset_of_list (ac_allowed_roles (access_control snap)) = allowed_roles p \<and>
     configured_default_roles config |\<union>| {|''system''|}
       |\<subseteq>| fset_of_list (ac_allowed_roles (access_control snap))"
proof -
  note k = policy_for_Inr [OF assms(2)]
  from store_policy_origin [OF assms(1) k] obtain loc config where
    d: "definition_for (definitions_or_default defs) (py_lower (py_strip l)) = Some (loc, config)"
    and ld: "load_policy lib env loc config = Inr p" by blast
  note a = loaded_policy_facts(3) [OF ld]
  have s: "''system'' |\<in>| allowed_roles p" by (simp add: a)
  have dp: "describe_policy st l = Inr (snapshot p)"
    by (simp add: describe_policy_def assms(2))
  have sub: "configured_default_roles config |\<union>| {|''system''|}
       |\<subseteq>| fset_of_list (ac_allowed_roles (access_control (snapshot p)))"
    unfolding snapshot_allowed_roles a by auto
  from d a s dp snapshot_allowed_roles [of p] sub show ?thesis by blast
qed

lemma s3_override_roles:
  "override_roles role_override_env (snd (DEFAULT_POLICY_DEFINITIONS ! 0)) =
     {|''auditor'', ''ops''|}"
  by code_simp

lemma role_override_s3_loaded:
  "load_policy toy_lib role_override_env ''s3'' (snd (DEFAULT_POLICY_DEFINITIONS ! 0)) =
     Inr s3_overridden_policy"
proof -
  have kf: "key_fault toy_lib role_override_env (snd (DEFAULT_POLICY_DEFINITIONS ! 0)) = None"
    by (simp add: key_fault_valid resolved_key_def DEFAULT_POLICY_DEFINITIONS_def
        str_or_empty_def role_override_env_def no_env_def strip_default_keys valid_default_keys)
  show ?thesis
    unfolding load_policy_eq kf s3_override_roles
    by (simp add: DEFAULT_POLICY_DEFINITIONS_def default_location_names resolved_key_def
        str_or_empty_def role_override_env_def no_env_def getenv_truthy_def strip_default_keys
        configured_default_roles_def s3_policy_def s3_overridden_policy_def) auto
qed

lemma role_override_others_loaded:
  "load_policy toy_lib role_override_env ''azure'' (snd (DEFAULT_POLICY_DEFINITIONS ! 1)) =
     Inr azure_policy"
  "load_policy toy_lib role_override_env ''gcs'' (snd (DEFAULT_POLICY_DEFINITIONS ! 2)) =
     Inr gcs_policy"
  by (auto simp: load_policy_eq DEFAULT_POLICY_DEFINITIONS_def default_location_names
      key_fault_valid resolved_key_def str_or_empty_def no_env_def getenv_truthy_def
      role_override_env_def
      strip_default_keys valid_default_keys override_roles_def configured_default_roles_def
      azure_policy_def gcs_policy_def)

lemmas role_override_policies_loaded = role_override_s3_loaded role_override_others_loaded

lemma role_override_store_built:
  "AdaptiveSecurityManager toy_lib role_override_env None = Inr role_override_store"
  using role_override_policies_loaded
  by (simp add: AdaptiveSecurityManager_def definitions_or_default_def
      DEFAULT_POLICY_DEFINITIONS_def role_override_store_def s3_policy_def azure_policy_def
      gcs_policy_def s3_overridden_policy_def)

lemma role_override_store_s3:
  "policy_for role_override_store ''s3'' = Inr s3_overridden_policy"
  by (simp add: policy_for_eq default_location_names role_override_store_def)

lemma default_definition_for_s3:
  "definition_for (definitions_or_default None) (py_lower (py_strip ''s3'')) =
     Some (DEFAULT_POLICY_DEFINITIONS ! 0)"
  by (simp add: definitions_or_default_def DEFAULT_POLICY_DEFINITIONS_def default_location_names)

theorem allowed_roles_of_built_store_witness:
  "AdaptiveSecurityManager toy_lib role_override_env None = Inr role_override_store \<and>
   policy_for role_override_store ''s3'' = Inr s3_overridden_policy \<and>
   allowed_roles s3_overridden_policy =
     fset_of_list [''analytics'', ''engineering'', ''system''] |\<union>| {|''auditor'', ''ops''|}
       |\<union>| {|''system''|} \<and>
   ''system'' |\<in>| allowed_roles s3_overridden_policy \<and>
   (\<exists>snap. describe_policy role_override_store ''s3'' = Inr snap \<and>
      fset_of_list (ac_allowed_roles (access_control snap)) =
        allowed_roles s3_overridden_policy)"
proof -
  from allowed_roles_of_built_store [OF role_override_store_built role_override_store_s3]
  obtain loc config snap where
    r: "definition_for (definitions_or_default None) (py_lower (py_strip ''s3'')) =
          Some (loc, config)"
       "allowed_roles s3_overridden_policy =
          configured_default_roles config |\<union>| override_roles role_override_env config
            |\<union>| {|''system''|}"
       "''system'' |\<in>| allowed_roles s3_overridden_policy"
       "describe_policy role_override_store ''s3'' = Inr snap"
       "fset_of_list (ac_allowed_roles (access_control snap)) =
          allowed_roles s3_overridden_policy"
    by blast
  from r(1) default_definition_for_s3
  have c: "config = snd (DEFAULT_POLICY_DEFINITIONS ! 0)" by simp
  have dr: "configured_default_roles (snd (DEFAULT_POLICY_DEFINITIONS ! 0)) =
      fset_of_list [''analytics'', ''engineering'', ''system'']"
    by (simp add: configured_default_roles_def DEFAULT_POLICY_DEFINITIONS_def)
  from r(2) have a: "allowed_roles s3_overridden_policy =
     fset_of_list [''analytics'', ''engineering'', ''system''] |\<union>| {|''auditor'', ''ops''|}
       |\<union>| {|''system''|}"
    unfolding c dr s3_override_roles .
  from role_override_store_built role_override_store_s3 a r(3) r(4,5)
  show ?thesis by blast
qed

subsection \<open>Snapshots do not depend on keys\<close>

lemma snapshot_fernet_update: "snapshot (p\<lparr>fernet := k\<rparr>) = snapshot p"
  by (simp add: snapshot_def)

lemma load_policy_default_key:
  assumes "load_policy lib env l c = Inr p"
    and "load_policy lib env l (c\<lparr>default_key := dk\<rparr>) = Inr p'"
  shows "p' = p\<lparr>fernet := fernet p'\<rparr>"
  using assms
  by (auto simp: load_policy_eq configured_default_roles_def override_roles_def
      split: option.splits)

lemma loaded_stores_agree:
  assumes "list_all2 (\<lambda>(l, c) (l', c'). l' = l \<and> c' = c\<lparr>default_key := default_key c'\<rparr>) ds ds'"
    and "load_policies lib env ds ps = Inr st"
    and "load_policies lib env ds' ps' = Inr st'"
    and "\<And>k. rel_option (\<lambda>p p'. p' = p\<lparr>fernet := fernet p'\<rparr>) (ps k) (ps' k)"
  shows "rel_option (\<lambda>p p'. p' = p\<lparr>fernet := fernet p'\<rparr>) (st k) (st' k)"
  using assms
proof (induction ds ds' arbitrary: ps ps' rule: list_all2_induct)
  case Nil
  then show ?case by simp
next
  case (Cons d ds d' ds')
  obtain l c where d: "d = (l, c)" by (cases d)
  with Cons.hyps(1) obtain c' where d': "d' = (l, c')" and c': "c' = c\<lparr>default_key := default_key c'\<rparr>"
    by (cases d') auto
  from Cons.prems(1) d obtain p where
    p: "load_policy lib env l c = Inr p" and
    r: "load_policies lib env ds (ps(name p \<mapsto> p)) = Inr st"
    by (auto split: sum.splits)
  from Cons.prems(2) d' obtain p' where
    p': "load_policy lib env l c' = Inr p'" and
    r': "load_policies lib env ds' (ps'(name p' \<mapsto> p')) = Inr st'"
    by (auto split: sum.splits)
  from p' c' have "load_policy lib env l (c\<lparr>default_key := default_key c'\<rparr>) = Inr p'"
    by simp
  from load_policy_default_key [OF p this] have e: "p' = p\<lparr>fernet := fernet p'\<rparr>" .
  then have n: "name p' = name p" by (cases p, cases p') auto
  have "rel_option (\<lambda>p p'. p' = p\<lparr>fernet := fernet p'\<rparr>)
          ((ps(name p \<mapsto> p)) k) ((ps'(name p' \<mapsto> p')) k)" for k
    using Cons.prems(3) [of k] e n by simp
  from Cons.IH [OF r r' this] show ?case .
qed

text \<open>
  C9: the snapshot of a policy is made of its name, key id, key source and allowed
  roles and does not depend on its key: replacing the key leaves the snapshot as it
  is. And two stores that the manager builds, in one environment, from dictionaries
  that differ at most in their default key texts give the same answer to
  \<^verbatim>\<open>describe_policy\<close> and to \<^verbatim>\<open>allowed_roles\<close> at every location string.
\<close>

theorem snapshot_independent_of_key:
  "snapshot (p\<lparr>fernet := k\<rparr>) = snapshot p \<and>
   (same_but_default_keys ds ds' \<longrightarrow>
    AdaptiveSecurityManager lib env (Some ds) = Inr st \<longrightarrow>
    AdaptiveSecurityManager lib env (Some ds') = Inr st' \<longrightarrow>
    describe_policy st l = describe_policy st' l \<and>
    allowed_roles_of st l = allowed_roles_of st' l)"
proof (intro conjI impI)
  show "snapshot (p\<lparr>fernet := k\<rparr>) = snapshot p" by (rule snapshot_fernet_update)
next
  assume s: "same_but_default_keys ds ds'"
    and b: "AdaptiveSecurityManager lib env (Some ds) = Inr st"
    and b': "AdaptiveSecurityManager lib env (Some ds') = Inr st'"
  have rel: "rel_option (\<lambda>p p'. p' = p\<lparr>fernet := fernet p'\<rparr>) (st k) (st' k)" for k
  proof (cases "ds = []")
    case True
    with s have "ds' = []" by (simp add: same_but_default_keys_def)
    with True b b' have "st' = st" by simp
    then show ?thesis by (cases "st k") simp_all
  next
    case False
    with s have ne: "ds' \<noteq> []" by (auto simp: same_but_default_keys_def)
    from b False have l: "load_policies lib env ds Map.empty = Inr st"
      by (simp add: AdaptiveSecurityManager_def definitions_or_default_def)
    from b' ne have l': "load_policies lib env ds' Map.empty = Inr st'"
      by (simp add: AdaptiveSecurityManager_def definitions_or_default_def)
    show ?thesis
      by (rule loaded_stores_agree [OF s [unfolded same_but_default_keys_def] l l']) simp
  qed
  note r = rel [of "py_lower (py_strip l)"]
  show "describe_policy st l = describe_policy st' l"
  proof (cases "st (py_lower (py_strip l))")
    case None
    with r show ?thesis by (simp add: describe_policy_def policy_for_eq)
  next
    case (Some q)
    with r obtain q' where q': "st' (py_lower (py_strip l)) = Some q'"
      and e: "q' = q\<lparr>fernet := fernet q'\<rparr>" by (auto simp: option_rel_Some1)
    from e have "snapshot q' = snapshot q" by (metis snapshot_fernet_update)
    with Some q' show ?thesis by (simp add: describe_policy_def policy_for_eq)
  qed
  show "allowed_roles_of st l = allowed_roles_of st' l"
  proof (cases "st (py_lower (py_strip l))")
    case None
    with r show ?thesis by (simp add: allowed_roles_of_def policy_for_eq)
  next
    case (Some q)
    with r obtain q' where q': "st' (py_lower (py_strip l)) = Some q'"
      and e: "q' = q\<lparr>fernet := fernet q'\<rparr>" by (auto simp: option_rel_Some1)
    from e have "allowed_roles q' = allowed_roles q" by (cases q, cases q') auto
    with Some q' show ?thesis by (simp add: allowed_roles_of_def policy_for_eq)
  qed
qed

lemma rekeyed_policies_loaded:
  "load_policy toy_lib no_env ''s3'' (snd (rekeyed_definitions ! 0)) =
     Inr (s3_policy\<lparr> fernet := ''FNLdlBuOKy23fIzUTBSHXjhJsfIgSkikUSU3mWk50oo='' \<rparr>)"
  "load_policy toy_lib no_env ''gcs'' (snd (rekeyed_definitions ! 2)) =
     Inr (gcs_policy\<lparr> fernet := ''L49jTE3mqXUgmwOvV2EaXiiZkJtQXoaKKKzlqxMFhkI='' \<rparr>)"
  by (auto simp: load_policy_eq rekeyed_definitions_def DEFAULT_POLICY_DEFINITIONS_def
      default_location_names key_fault_valid resolved_key_def str_or_empty_def no_env_def
      getenv_truthy_def strip_default_keys valid_default_keys override_roles_def
      configured_default_roles_def s3_policy_def gcs_policy_def)

lemma rekeyed_store_built:
  "AdaptiveSecurityManager toy_lib no_env (Some rekeyed_definitions) = Inr rekeyed_store"
  using rekeyed_policies_loaded default_policies_loaded(2)
  by (simp add: AdaptiveSecurityManager_def definitions_or_default_def
      rekeyed_definitions_def DEFAULT_POLICY_DEFINITIONS_def rekeyed_store_def s3_policy_def
      azure_policy_def gcs_policy_def)

lemma default_store_built_explicitly:
  "AdaptiveSecurityManager toy_lib no_env (Some DEFAULT_POLICY_DEFINITIONS) = Inr default_store"
  using default_store_built
  by (simp add: AdaptiveSecurityManager_def definitions_or_default_def)

lemma rekeyed_same_but_default_keys:
  "same_but_default_keys DEFAULT_POLICY_DEFINITIONS rekeyed_definitions"
  by (simp add: same_but_default_keys_def rekeyed_definitions_def DEFAULT_POLICY_DEFINITIONS_def)

theorem snapshot_independent_of_key_witness:
  "same_but_default_keys DEFAULT_POLICY_DEFINITIONS rekeyed_definitions \<and>
   AdaptiveSecurityManager toy_lib no_env (Some DEFAULT_POLICY_DEFINITIONS) = Inr default_store \<and>
   AdaptiveSecurityManager toy_lib no_env (Some rekeyed_definitions) = Inr rekeyed_store \<and>
   default_store ''s3'' \<noteq> rekeyed_store ''s3'' \<and>
   describe_policy default_store ''S3'' = describe_policy rekeyed_store ''S3'' \<and>
   allowed_roles_of default_store ''S3'' = allowed_roles_of rekeyed_store ''S3''"
proof -
  have d: "default_store ''s3'' \<noteq> rekeyed_store ''s3''"
    by (simp add: default_store_def rekeyed_store_def s3_policy_def)
  note t = snapshot_independent_of_key [where l = "''S3''" and p = s3_policy and k = "[]",
      THEN conjunct2, rule_format,
      OF rekeyed_same_but_default_keys default_store_built_explicitly rekeyed_store_built]
  from rekeyed_same_but_default_keys default_store_built_explicitly rekeyed_store_built d
    t [THEN conjunct1] t [THEN conjunct2]
  show ?thesis by (intro conjI)
qed

end
